theory Spec2Isabelle
  imports Complex_Main "HOL-Library.FSet"
begin

section \<open>Data model (pandemic/cities.go, pandemic/game_state.go)\<close>

text \<open>
  Go's \<^verbatim>\<open>int\<close> is modelled as \<^typ>\<open>int\<close>: the counts of this program are lengths of
  slices, and an infection level is only ever incremented by one, from a value other than
  3, which is the same in 64 bits for every level below the largest one. \<^verbatim>\<open>float64\<close> is
  modelled as \<^typ>\<open>real\<close>: the probabilities are quotients and products of small
  integers, and the properties below are about these formulas, not about rounding.

  \<^verbatim>\<open>DiseaseType\<close> and \<^verbatim>\<open>PanicLevel\<close> are declared outside the files at hand; no
  function below looks at them. They are kept as a string tag and an integer, whose Go
  zero values are the empty string and 0.
\<close>

type_synonym CityName = string
type_synonym DiseaseType = string
type_synonym PanicLevel = int

record City =
  Name :: CityName
  Disease :: DiseaseType
  PanicLevel :: PanicLevel
  Neighbors :: "string list"
  NumInfections :: int
  Quarantined :: bool

record CityCard =
  City :: City
  IsEpidemic :: bool

record CityDeck =
  CityDeck_Drawn :: "CityCard list"
  CityDeck_All :: "CityCard list"

text \<open>
  Modelled from the spec: the type \<^verbatim>\<open>InfectionDeck\<close> and its methods are in a file that
  is not at hand. Spec 3: "an ordered sequence of striations, where striation index 0 is
  defined as closest to being drawn next [...] plus a separate drawn pile (ordered list,
  most-recent-first, logically a stack). Each striation is an unordered set of location
  names".
\<close>

type_synonym Striation = "CityName fset"

record InfectionDeck =
  InfectionDeck_Drawn :: "CityName list"
  InfectionDeck_Striations :: "Striation list"

text \<open>
  \<^verbatim>\<open>GameState\<close>. The struct \<^verbatim>\<open>Cities\<close> wraps one slice of city pointers and is
  the list itself here; the pointers of the slice are taken to be non-nil and pairwise
  different, as JSON decoding makes them. \<^verbatim>\<open>DiseaseData\<close> is declared outside the files
  at hand and is a type parameter.
\<close>

record 'dd GameState =
  Cities :: "City list"
  CityDeck :: CityDeck
  DiseaseData :: "'dd list"
  InfectionDeck :: InfectionDeck
  InfectionRate :: int
  Outbreaks :: int
  GameName :: string

text \<open>
  Errors are the values the functions build with \<^verbatim>\<open>fmt.Errorf\<close>, one constructor per
  message. \<open>NotFound\<close> and \<open>DuplicateDraw\<close> are the error kinds the spec gives to the
  operations of the infection deck.
\<close>

datatype error =
    AlreadyDrawn CityName          \<comment> \<open>"%v has already been drawn from the city deck"\<close>
  | NoCityCalled CityName          \<comment> \<open>"No city called %v in the city deck"\<close>
  | AlreadyDrawnEpidemics int      \<comment> \<open>"Already drawn %v epidemics this game, ..."\<close>
  | NoCityNamed CityName           \<comment> \<open>"No city named %v"\<close>
  | AlreadyQuarantined CityName    \<comment> \<open>"%v is already quarantined"\<close>
  | NotQuarantined CityName        \<comment> \<open>"%v is not quarantined "\<close>
  | NotFound CityName
  | DuplicateDraw CityName

text \<open>
  A method that returns \<^verbatim>\<open>error\<close> mutates its receiver through pointers. Its model
  returns how the call ended together with the state the call leaves behind:
  \<open>Success\<close> for a nil error, \<open>Failure e\<close> for a returned error, \<open>Panicked\<close> for a
  run-time panic (nil dereference).
\<close>

datatype outcome = Success | Failure error | Panicked

section \<open>Cities (pandemic/cities.go)\<close>

definition City_zero :: City where
  "City_zero = \<lparr>Name = '''', Disease = '''', PanicLevel = 0, Neighbors = [],
     NumInfections = 0, Quarantined = False\<rparr>"

definition CityCards :: "City list \<Rightarrow> nat \<Rightarrow> CityCard list" where
  "CityCards cs epidemicCount =
     map (\<lambda>city. \<lparr>City = city, IsEpidemic = False\<rparr>) cs
     @ replicate epidemicCount \<lparr>City = City_zero, IsEpidemic = True\<rparr>"

fun GetCity :: "City list \<Rightarrow> CityName \<Rightarrow> error + City" where
  "GetCity [] city = Inl (NoCityNamed city)"
| "GetCity (c # cs) city = (if Name c = city then Inr c else GetCity cs city)"

text \<open>
  \<^verbatim>\<open>GetCity\<close> returns a pointer into the slice, and the callers write through it.
  \<open>updateCity f cn cs\<close> is that write: \<open>f\<close> applied to the city \<open>GetCity cs cn\<close> returns.
\<close>

fun updateCity :: "(City \<Rightarrow> City) \<Rightarrow> CityName \<Rightarrow> City list \<Rightarrow> City list" where
  "updateCity f cn [] = []"
| "updateCity f cn (c # cs) = (if Name c = cn then f c # cs else c # updateCity f cn cs)"

definition CityNames :: "City list \<Rightarrow> CityName list" where
  "CityNames cs = map Name cs"

text \<open>\<^verbatim>\<open>City.Infect\<close> returns the flag and the city after the call.\<close>

definition City_Infect :: "City \<Rightarrow> bool \<times> City" where
  "City_Infect c =
     (if NumInfections c = 3 then (True, c)
      else (False, c\<lparr>NumInfections := NumInfections c + 1\<rparr>))"

definition City_Epidemic :: "City \<Rightarrow> City" where
  "City_Epidemic c = c\<lparr>NumInfections := 3\<rparr>"

definition City_Quarantine :: "City \<Rightarrow> City" where
  "City_Quarantine c = c\<lparr>Quarantined := True\<rparr>"

definition City_RemoveQuarantine :: "City \<Rightarrow> City" where
  "City_RemoveQuarantine c = c\<lparr>Quarantined := False\<rparr>"

section \<open>The city deck (pandemic/cities.go)\<close>

definition CityDeck_Total :: "CityDeck \<Rightarrow> int" where
  "CityDeck_Total c = int (length (CityDeck_All c))"

definition NumEpidemics :: "CityDeck \<Rightarrow> int" where
  "NumEpidemics c = int (length (filter IsEpidemic (CityDeck_All c)))"

text \<open>
  Integer division by zero panics in Go: \<open>None\<close>. Both operands are non-negative, where
  Go's truncating \<^verbatim>\<open>/\<close> and \<^verbatim>\<open>%\<close> are \<open>div\<close> and \<open>mod\<close>.
\<close>

definition cardsPerEpidemic :: "CityDeck \<Rightarrow> int option" where
  "cardsPerEpidemic c =
     (if NumEpidemics c = 0 then None else Some (CityDeck_Total c div NumEpidemics c))"

definition EpidemicsDrawn :: "CityDeck \<Rightarrow> int" where
  "EpidemicsDrawn c = int (length (filter IsEpidemic (CityDeck_Drawn c)))"

definition CityDeck_Draw :: "CityDeck \<Rightarrow> CityName \<Rightarrow> outcome \<times> CityDeck" where
  "CityDeck_Draw c cn =
     (if \<exists>crd \<in> set (CityDeck_Drawn c). Name (City crd) = cn
      then (Failure (AlreadyDrawn cn), c)
      else case find (\<lambda>crd. Name (City crd) = cn) (CityDeck_All c) of
             Some crd \<Rightarrow> (Success, c\<lparr>CityDeck_Drawn := CityDeck_Drawn c @ [crd]\<rparr>)
           | None \<Rightarrow> (Failure (NoCityCalled cn), c))"

definition DrawEpidemic :: "CityDeck \<Rightarrow> outcome \<times> CityDeck" where
  "DrawEpidemic c =
     (let totalEpis = NumEpidemics c;
          drawnEpis = int (length (filter IsEpidemic (CityDeck_Drawn c)))
      in if drawnEpis \<ge> totalEpis then (Failure (AlreadyDrawnEpidemics drawnEpis), c)
         else (Success,
               c\<lparr>CityDeck_Drawn := CityDeck_Drawn c @ [\<lparr>City = City_zero, IsEpidemic = True\<rparr>]\<rparr>))"

text \<open>
  \<^verbatim>\<open>probabilityOfEpidemic\<close>. A panic of \<^verbatim>\<open>cardsPerEpidemic\<close> is passed on. The
  remainder by a zero \<^verbatim>\<open>cardsPerEpidemic\<close> would panic as well; that needs more epidemic
  cards than cards and cannot happen (lemma \<open>cardsPerEpidemic_pos\<close>).
\<close>

definition probabilityOfEpidemic :: "CityDeck \<Rightarrow> real option" where
  "probabilityOfEpidemic c =
     (case cardsPerEpidemic c of
        None \<Rightarrow> None
      | Some cpe \<Rightarrow>
          if cpe = 0 then None
          else
            let len = int (length (CityDeck_Drawn c));
                currentPhase = \<lfloor>real_of_int len / real_of_int cpe\<rfloor>
            in if currentPhase = EpidemicsDrawn c
               then Some (2 / real_of_int (cpe - len mod cpe))
               else Some 0)"

section \<open>The infection deck\<close>

text \<open>
  Modelled from the spec: \<^verbatim>\<open>NewInfectionDeck\<close> is not at hand. Spec 3: "striations are
  created once at game start as a single striation containing the whole catalog".
\<close>

definition NewInfectionDeck :: "CityName list \<Rightarrow> InfectionDeck" where
  "NewInfectionDeck names =
     \<lparr>InfectionDeck_Drawn = [], InfectionDeck_Striations = [fset_of_list names]\<rparr>"

text \<open>
  Modelled from the spec: \<^verbatim>\<open>InfectionDeck.Draw\<close> is not at hand. Spec 4.3: "fails with
  NotFound if name is absent from every striation (it may legitimately be in the drawn
  pile already, then fails with DuplicateDraw). Otherwise removes name from whichever
  striation currently contains it and pushes it onto the drawn pile (most-recent-first).
  Removing a location may leave its striation empty but the striation is not removed from
  the sequence". In a session a name is in one striation at most; the model takes the
  name out of each striation that holds it.
\<close>

definition InfectionDeck_Draw :: "InfectionDeck \<Rightarrow> CityName \<Rightarrow> outcome \<times> InfectionDeck" where
  "InfectionDeck_Draw d cn =
     (if \<forall>s \<in> set (InfectionDeck_Striations d). cn |\<notin>| s
      then (if cn \<in> set (InfectionDeck_Drawn d)
            then (Failure (DuplicateDraw cn), d) else (Failure (NotFound cn), d))
      else (Success,
            d\<lparr>InfectionDeck_Striations := map (\<lambda>s. s |-| {|cn|}) (InfectionDeck_Striations d),
              InfectionDeck_Drawn := cn # InfectionDeck_Drawn d\<rparr>))"

text \<open>
  Modelled from the spec: \<^verbatim>\<open>InfectionDeck.PullFromBottom\<close> is not at hand. Spec 4.3:
  "Fails with NotFound if name is not present in the drawn pile. [...] this operation
  pulls exactly the named entry out of the drawn pile." The striations stay as they are.
\<close>

definition PullFromBottom :: "InfectionDeck \<Rightarrow> CityName \<Rightarrow> outcome \<times> InfectionDeck" where
  "PullFromBottom d cn =
     (if cn \<notin> set (InfectionDeck_Drawn d) then (Failure (NotFound cn), d)
      else (Success, d\<lparr>InfectionDeck_Drawn := removeAll cn (InfectionDeck_Drawn d)\<rparr>))"

text \<open>
  Modelled from the spec: \<^verbatim>\<open>InfectionDeck.ShuffleDrawn\<close> is not at hand. Spec 4.3: "takes
  the entire current drawn pile, and inserts it as one brand-new striation at index 0
  (closest to next draw), clearing the drawn pile."
\<close>

definition ShuffleDrawn :: "InfectionDeck \<Rightarrow> InfectionDeck" where
  "ShuffleDrawn d =
     d\<lparr>InfectionDeck_Striations := fset_of_list (InfectionDeck_Drawn d) # InfectionDeck_Striations d,
       InfectionDeck_Drawn := []\<rparr>"

text \<open>
  Modelled from the spec: \<^verbatim>\<open>InfectionDeck.BottomStriation\<close> is not at hand. Spec 4.3: "the
  first non-empty striation in the ordered sequence (index-0 search, falling through to
  next index if empty)". A deck with no non-empty striation gives the empty one.
\<close>

definition BottomStriation :: "InfectionDeck \<Rightarrow> Striation" where
  "BottomStriation d =
     (case find (\<lambda>s. s \<noteq> {||}) (InfectionDeck_Striations d) of
        Some s \<Rightarrow> s | None \<Rightarrow> {||})"

text \<open>
  Modelled from the spec: \<^verbatim>\<open>InfectionDeck.ProbabilityOfDrawing\<close> is not at hand. Spec 4.3:
  "if name is in the drawn pile, probability is infectionRate / (1 + drawnPileSize) [...]
  If name is in the bottom striation, probability is 1 / bottomStriation.size().
  Otherwise 0."
\<close>

definition ProbabilityOfDrawing :: "InfectionDeck \<Rightarrow> CityName \<Rightarrow> int \<Rightarrow> real" where
  "ProbabilityOfDrawing d cn infectionRate =
     (if cn \<in> set (InfectionDeck_Drawn d)
      then real_of_int infectionRate / (1 + real (length (InfectionDeck_Drawn d)))
      else if cn |\<in>| BottomStriation d then 1 / real (fcard (BottomStriation d))
      else 0)"

section \<open>The game state (pandemic/game_state.go)\<close>

definition EpidemicsPerGame :: nat where
  "EpidemicsPerGame = 5"

text \<open>
  \<^verbatim>\<open>NewGame\<close> after the cities file has been read and decoded into \<open>cities\<close>; the list
  \<^verbatim>\<open>{Yellow, Red, Black, Blue, Faded}\<close> of disease data, declared outside the files at
  hand, is the parameter \<open>diseases\<close>.
\<close>

definition NewGame :: "'dd list \<Rightarrow> City list \<Rightarrow> string \<Rightarrow> 'dd GameState" where
  "NewGame diseases cities gameName =
     \<lparr>Cities = cities,
      CityDeck = \<lparr>CityDeck_Drawn = [], CityDeck_All = CityCards cities EpidemicsPerGame\<rparr>,
      DiseaseData = diseases,
      InfectionDeck = NewInfectionDeck (CityNames cities),
      InfectionRate = 2,
      Outbreaks = 0,
      GameName = gameName\<rparr>"

definition Infect :: "'dd GameState \<Rightarrow> CityName \<Rightarrow> outcome \<times> 'dd GameState" where
  "Infect gs cn =
     (case InfectionDeck_Draw (InfectionDeck gs) cn of
        (Success, d) \<Rightarrow>
          (let gs1 = gs\<lparr>InfectionDeck := d\<rparr> in
           case GetCity (Cities gs1) cn of
             Inl err \<Rightarrow> (Failure err, gs1)
           | Inr city \<Rightarrow>
               if Quarantined city
               then (Success, gs1\<lparr>Cities := updateCity City_RemoveQuarantine cn (Cities gs1)\<rparr>)
               else (Success, gs1\<lparr>Cities := updateCity (snd \<circ> City_Infect) cn (Cities gs1)\<rparr>))
      | (err, d) \<Rightarrow> (err, gs\<lparr>InfectionDeck := d\<rparr>))"

text \<open>
  In \<^verbatim>\<open>Epidemic\<close> the error of \<^verbatim>\<open>GetCity\<close> is dropped and the returned pointer is
  read at once: for a name that is no city the pointer is nil and the read panics.
\<close>

definition Epidemic :: "'dd GameState \<Rightarrow> CityName \<Rightarrow> outcome \<times> 'dd GameState" where
  "Epidemic gs cn =
     (case PullFromBottom (InfectionDeck gs) cn of
        (Success, d) \<Rightarrow>
          (let gs1 = gs\<lparr>InfectionDeck := d\<rparr> in
           case DrawEpidemic (CityDeck gs1) of
             (Success, cd) \<Rightarrow>
               (let gs2 = gs1\<lparr>CityDeck := cd\<rparr> in
                case GetCity (Cities gs2) cn of
                  Inl err \<Rightarrow> (Panicked, gs2)
                | Inr city \<Rightarrow>
                    if Quarantined city
                    then (Success, gs2\<lparr>Cities := updateCity City_RemoveQuarantine cn (Cities gs2)\<rparr>)
                    else (Success,
                          gs2\<lparr>Cities := updateCity City_Epidemic cn (Cities gs2),
                              InfectionDeck := ShuffleDrawn (InfectionDeck gs2)\<rparr>))
           | (err, cd) \<Rightarrow> (err, gs1\<lparr>CityDeck := cd\<rparr>))
      | (err, d) \<Rightarrow> (err, gs\<lparr>InfectionDeck := d\<rparr>))"

definition Quarantine :: "'dd GameState \<Rightarrow> CityName \<Rightarrow> outcome \<times> 'dd GameState" where
  "Quarantine gs cn =
     (case GetCity (Cities gs) cn of
        Inl err \<Rightarrow> (Failure err, gs)
      | Inr city \<Rightarrow>
          if Quarantined city then (Failure (AlreadyQuarantined cn), gs)
          else (Success, gs\<lparr>Cities := updateCity City_Quarantine cn (Cities gs)\<rparr>))"

definition RemoveQuarantine :: "'dd GameState \<Rightarrow> CityName \<Rightarrow> outcome \<times> 'dd GameState" where
  "RemoveQuarantine gs cn =
     (case GetCity (Cities gs) cn of
        Inl err \<Rightarrow> (Failure err, gs)
      | Inr city \<Rightarrow>
          if \<not> Quarantined city then (Failure (NotQuarantined cn), gs)
          else (Success, gs\<lparr>Cities := updateCity City_RemoveQuarantine cn (Cities gs)\<rparr>))"

text \<open>
  \<^verbatim>\<open>ProbabilityOfCity\<close>; \<open>None\<close> is the panic of \<^verbatim>\<open>probabilityOfEpidemic\<close>. The
  variable \<^verbatim>\<open>pEpiDraw\<close> keeps its zero value when neither branch assigns it.
\<close>

definition ProbabilityOfCity :: "'dd GameState \<Rightarrow> CityName \<Rightarrow> real option" where
  "ProbabilityOfCity gs cn =
     (case GetCity (Cities gs) cn of
        Inl err \<Rightarrow> Some 0
      | Inr city \<Rightarrow>
          if Quarantined city then Some 0
          else
            case probabilityOfEpidemic (CityDeck gs) of
              None \<Rightarrow> None
            | Some pEpi \<Rightarrow>
                let bottom = BottomStriation (InfectionDeck gs);
                    pEpiDraw =
                      (if cn |\<in>| bottom then 1 / real (fcard bottom)
                       else if cn \<in> set (InfectionDeck_Drawn (InfectionDeck gs))
                       then real_of_int (InfectionRate gs)
                            / (1 + real (length (InfectionDeck_Drawn (InfectionDeck gs))))
                       else 0);
                    pNoEpiDraw = ProbabilityOfDrawing (InfectionDeck gs) cn (InfectionRate gs)
                in Some (pEpi * pEpiDraw + (1 - pEpi) * pNoEpiDraw))"

definition CanOutbreak :: "'dd GameState \<Rightarrow> CityName \<Rightarrow> bool option" where
  "CanOutbreak gs cn =
     (case GetCity (Cities gs) cn of
        Inl err \<Rightarrow> Some False
      | Inr city \<Rightarrow>
          if NumInfections city = 0 then Some False
          else
            case ProbabilityOfCity gs cn of
              None \<Rightarrow> None
            | Some prob \<Rightarrow>
                if prob = 0 then Some False
                else Some (NumInfections city = 3 \<or> cn |\<in>| BottomStriation (InfectionDeck gs)))"

section \<open>Reachable states\<close>

text \<open>
  The states a session goes through: \<^verbatim>\<open>NewGame\<close> on a catalog, then any number of calls
  of the operations that change the state, each of them having returned (with or without
  an error; a panic ends the program). The operations of the two decks are listed on
  their own, since a caller holding the game state can call them on its decks, as the
  view does with \<^verbatim>\<open>InfectionDeck.Draw\<close>. No operation of the game state or of a deck calls
  \<^verbatim>\<open>City.SetInfections\<close>, which is not part of a session.
\<close>

inductive reachable :: "City list \<Rightarrow> 'dd GameState \<Rightarrow> bool" for cities :: "City list" where
  r_new: "reachable cities (NewGame diseases cities gameName)"
| r_Infect: "reachable cities gs \<Longrightarrow> Infect gs cn = (r, gs') \<Longrightarrow> r \<noteq> Panicked
     \<Longrightarrow> reachable cities gs'"
| r_Epidemic: "reachable cities gs \<Longrightarrow> Epidemic gs cn = (r, gs') \<Longrightarrow> r \<noteq> Panicked
     \<Longrightarrow> reachable cities gs'"
| r_Quarantine: "reachable cities gs \<Longrightarrow> Quarantine gs cn = (r, gs') \<Longrightarrow> r \<noteq> Panicked
     \<Longrightarrow> reachable cities gs'"
| r_RemoveQuarantine: "reachable cities gs \<Longrightarrow> RemoveQuarantine gs cn = (r, gs')
     \<Longrightarrow> r \<noteq> Panicked \<Longrightarrow> reachable cities gs'"
| r_CityDeck_Draw: "reachable cities gs \<Longrightarrow> CityDeck_Draw (CityDeck gs) cn = (r, cd)
     \<Longrightarrow> r \<noteq> Panicked \<Longrightarrow> reachable cities (gs\<lparr>CityDeck := cd\<rparr>)"
| r_DrawEpidemic: "reachable cities gs \<Longrightarrow> DrawEpidemic (CityDeck gs) = (r, cd)
     \<Longrightarrow> r \<noteq> Panicked \<Longrightarrow> reachable cities (gs\<lparr>CityDeck := cd\<rparr>)"
| r_InfectionDeck_Draw: "reachable cities gs \<Longrightarrow> InfectionDeck_Draw (InfectionDeck gs) cn = (r, d)
     \<Longrightarrow> r \<noteq> Panicked \<Longrightarrow> reachable cities (gs\<lparr>InfectionDeck := d\<rparr>)"
| r_PullFromBottom: "reachable cities gs \<Longrightarrow> PullFromBottom (InfectionDeck gs) cn = (r, d)
     \<Longrightarrow> r \<noteq> Panicked \<Longrightarrow> reachable cities (gs\<lparr>InfectionDeck := d\<rparr>)"
| r_ShuffleDrawn: "reachable cities gs
     \<Longrightarrow> reachable cities (gs\<lparr>InfectionDeck := ShuffleDrawn (InfectionDeck gs)\<rparr>)"

section \<open>Invariants of a session\<close>

text \<open>The infection levels the data model allows.\<close>

definition level_ok :: "City \<Rightarrow> bool" where
  "level_ok c \<longleftrightarrow> 0 \<le> NumInfections c \<and> NumInfections c \<le> 3"

text \<open>No name is both in the drawn pile and in a striation of the infection deck.\<close>

definition disjoint_piles :: "InfectionDeck \<Rightarrow> bool" where
  "disjoint_piles d \<longleftrightarrow>
     (\<forall>s \<in> set (InfectionDeck_Striations d). \<forall>cn \<in> set (InfectionDeck_Drawn d). cn |\<notin>| s)"

definition session_inv :: "'dd GameState \<Rightarrow> bool" where
  "session_inv gs \<longleftrightarrow>
     1 \<le> NumEpidemics (CityDeck gs) \<and> InfectionRate gs = 2 \<and> disjoint_piles (InfectionDeck gs)"

text \<open>How a call ended: with a returned error.\<close>

fun failed :: "outcome \<Rightarrow> bool" where
  "failed (Failure e) = True"
| "failed Success = False"
| "failed Panicked = False"

section \<open>Example sessions\<close>

definition Lima :: City where
  "Lima = \<lparr>Name = ''Lima'', Disease = ''Yellow'', PanicLevel = 0, Neighbors = [''Cairo''],
     NumInfections = 0, Quarantined = False\<rparr>"

definition Cairo :: City where
  "Cairo = \<lparr>Name = ''Cairo'', Disease = ''Black'', PanicLevel = 0, Neighbors = [''Lima''],
     NumInfections = 0, Quarantined = False\<rparr>"

definition new_game :: "unit GameState" where
  "new_game = NewGame [] [Lima, Cairo] ''g''"

text \<open>Both cities infected, then Lima quarantined.\<close>

definition lima_quarantined :: "unit GameState" where
  "lima_quarantined =
     snd (Quarantine (snd (Infect (snd (Infect new_game ''Lima'')) ''Cairo'')) ''Lima'')"

text \<open>
  The epidemic cards drawn one after the other, and the session in which all five are
  drawn and Lima is infected after that.
\<close>

fun draw_epidemics :: "nat \<Rightarrow> 'dd GameState \<Rightarrow> 'dd GameState" where
  "draw_epidemics 0 gs = gs"
| "draw_epidemics (Suc n) gs =
     draw_epidemics n (gs\<lparr>CityDeck := snd (DrawEpidemic (CityDeck gs))\<rparr>)"

definition epidemics_exhausted :: "unit GameState" where
  "epidemics_exhausted = snd (Infect (draw_epidemics 5 new_game) ''Lima'')"

text \<open>A catalog that gives Lima the infection level -1.\<close>

definition negative_game :: "unit GameState" where
  "negative_game = NewGame [] [Lima\<lparr>NumInfections := - 1\<rparr>, Cairo] ''g''"

text \<open>A catalog that gives Lima the infection level 2.\<close>

definition infected_game :: "unit GameState" where
  "infected_game = NewGame [] [Lima\<lparr>NumInfections := 2\<rparr>, Cairo] ''g''"

text \<open>A city deck without epidemic cards, and the deck of a new game after Lima is drawn.\<close>

definition no_epidemics :: CityDeck where
  "no_epidemics = \<lparr>CityDeck_Drawn = [], CityDeck_All = CityCards [Lima, Cairo] 0\<rparr>"

definition lima_drawn :: CityDeck where
  "lima_drawn = snd (CityDeck_Draw (CityDeck new_game) ''Lima'')"

text \<open>A city deck of 90 city cards and 6 epidemic cards, 5 city cards drawn.\<close>

definition numbered_city :: "nat \<Rightarrow> City" where
  "numbered_city n = City_zero\<lparr>Name := replicate (Suc n) (CHR ''x'')\<rparr>"

definition deck96 :: CityDeck where
  "deck96 =
     \<lparr>CityDeck_Drawn = map (\<lambda>n. \<lparr>City = numbered_city n, IsEpidemic = False\<rparr>) [0..<5],
      CityDeck_All = CityCards (map numbered_city [0..<90]) 6\<rparr>"

section \<open>Lemmas on cities and the two decks\<close>

lemma GetCity_Inr: "GetCity cs cn = Inr c \<Longrightarrow> c \<in> set cs \<and> Name c = cn"
  by (induction cs) (auto split: if_splits)

lemma length_updateCity [simp]: "length (updateCity f cn cs) = length cs"
  by (induction cs) auto

lemma updateCity_nth_other:
  "i < length cs \<Longrightarrow> Name (cs ! i) \<noteq> cn \<Longrightarrow> updateCity f cn cs ! i = cs ! i"
proof (induction cs arbitrary: i)
  case Nil
  then show ?case by simp
next
  case (Cons c cs)
  then show ?case by (cases i) auto
qed

lemma updateCity_pres:
  assumes "\<forall>c \<in> set cs. P c" and "\<And>c. P c \<Longrightarrow> P (f c)"
  shows "\<forall>c \<in> set (updateCity f cn cs). P c"
  using assms by (induction cs) auto

lemma level_ok_steps:
  "level_ok c \<Longrightarrow> level_ok (snd (City_Infect c))"
  "level_ok c \<Longrightarrow> level_ok (City_Epidemic c)"
  "level_ok c \<Longrightarrow> level_ok (City_Quarantine c)"
  "level_ok c \<Longrightarrow> level_ok (City_RemoveQuarantine c)"
  by (auto simp: level_ok_def City_Infect_def City_Epidemic_def City_Quarantine_def
      City_RemoveQuarantine_def)

lemma NumEpidemics_nonneg: "0 \<le> NumEpidemics c"
  by (simp add: NumEpidemics_def)

lemma NumEpidemics_le_Total: "NumEpidemics c \<le> CityDeck_Total c"
  by (simp add: NumEpidemics_def CityDeck_Total_def)

lemma cardsPerEpidemic_pos:
  assumes "cardsPerEpidemic c = Some k"
  shows "1 \<le> k"
proof -
  from assms have ne: "NumEpidemics c \<noteq> 0" and k: "k = CityDeck_Total c div NumEpidemics c"
    by (auto simp: cardsPerEpidemic_def split: if_splits)
  from ne NumEpidemics_nonneg [of c] have pos: "0 < NumEpidemics c" by simp
  have "1 \<le> CityDeck_Total c div NumEpidemics c"
    using pos NumEpidemics_le_Total [of c]
    by (metis zdiv_mono1 div_self less_irrefl)
  with k show ?thesis by simp
qed

lemma cardsPerEpidemic_None_iff: "cardsPerEpidemic c = None \<longleftrightarrow> NumEpidemics c = 0"
  by (simp add: cardsPerEpidemic_def)

lemma probabilityOfEpidemic_None_iff: "probabilityOfEpidemic c = None \<longleftrightarrow> NumEpidemics c = 0"
proof (cases "cardsPerEpidemic c")
  case None
  then show ?thesis
    using cardsPerEpidemic_None_iff [of c] by (simp add: probabilityOfEpidemic_def)
next
  case (Some k)
  with cardsPerEpidemic_pos [OF Some] cardsPerEpidemic_None_iff [of c] show ?thesis
    by (simp add: probabilityOfEpidemic_def Let_def)
qed

lemma NumEpidemics_zero_iff:
  "NumEpidemics c = 0 \<longleftrightarrow> (\<forall>crd \<in> set (CityDeck_All c). \<not> IsEpidemic crd)"
  by (simp add: NumEpidemics_def filter_empty_conv)

lemma NumEpidemics_NewGame: "NumEpidemics (CityDeck (NewGame ds cs n)) = 5"
  by (simp add: NewGame_def NumEpidemics_def CityCards_def EpidemicsPerGame_def o_def)

lemma NumEpidemics_DrawEpidemic: "NumEpidemics (snd (DrawEpidemic c)) = NumEpidemics c"
  by (simp add: DrawEpidemic_def NumEpidemics_def Let_def)

lemma NumEpidemics_CityDeck_Draw: "NumEpidemics (snd (CityDeck_Draw c cn)) = NumEpidemics c"
  by (simp add: CityDeck_Draw_def NumEpidemics_def split: option.splits)

lemma disjoint_piles_Draw:
  "disjoint_piles d \<Longrightarrow> disjoint_piles (snd (InfectionDeck_Draw d cn))"
  by (auto simp: disjoint_piles_def InfectionDeck_Draw_def)

lemma disjoint_piles_Pull:
  "disjoint_piles d \<Longrightarrow> disjoint_piles (snd (PullFromBottom d cn))"
  by (auto simp: disjoint_piles_def PullFromBottom_def)

lemma disjoint_piles_Shuffle: "disjoint_piles (ShuffleDrawn d)"
  by (simp add: disjoint_piles_def ShuffleDrawn_def)

lemma disjoint_piles_New: "disjoint_piles (NewInfectionDeck names)"
  by (simp add: disjoint_piles_def NewInfectionDeck_def)

lemma BottomStriation_cases:
  "BottomStriation d = {||} \<or> BottomStriation d \<in> set (InfectionDeck_Striations d)"
  by (auto simp: BottomStriation_def find_Some_iff split: option.splits)

lemma bottom_not_drawn:
  assumes "disjoint_piles d" and "cn |\<in>| BottomStriation d"
  shows "cn \<notin> set (InfectionDeck_Drawn d)"
  using assms BottomStriation_cases [of d] by (auto simp: disjoint_piles_def)

lemma ProbabilityOfDrawing_agrees:
  assumes "disjoint_piles d"
  shows "ProbabilityOfDrawing d cn rate =
     (if cn |\<in>| BottomStriation d then 1 / real (fcard (BottomStriation d))
      else if cn \<in> set (InfectionDeck_Drawn d)
      then real_of_int rate / (1 + real (length (InfectionDeck_Drawn d)))
      else 0)"
  using bottom_not_drawn [OF assms, of cn] by (auto simp: ProbabilityOfDrawing_def)

lemma inv_fcard_bounds:
  assumes "cn |\<in>| s"
  shows "0 \<le> 1 / real (fcard s) \<and> 1 / real (fcard s) \<le> 1"
proof -
  from assms have "s \<noteq> {||}" by auto
  then have "fcard s \<noteq> 0" by (simp add: fcard_0_eq)
  then have "1 \<le> fcard s" by arith
  then have "1 \<le> real (fcard s)" by simp
  then show ?thesis by simp
qed

lemma drawn_ratio_bounds:
  assumes "cn \<in> set xs"
  shows "0 \<le> 2 / (1 + real (length xs)) \<and> 2 / (1 + real (length xs)) \<le> 1"
proof -
  from assms have "xs \<noteq> []" by auto
  then have "1 \<le> real (length xs)" by (cases xs) simp_all
  then show ?thesis by simp
qed

lemma mix_same: "p * x + (1 - p) * x = (x::real)"
  by (simp add: algebra_simps)

section \<open>What each operation of the game state touches\<close>

lemma Infect_frame:
  assumes "Infect gs cn = (r, gs')"
  shows "CityDeck gs' = CityDeck gs \<and> InfectionRate gs' = InfectionRate gs
     \<and> InfectionDeck gs' = snd (InfectionDeck_Draw (InfectionDeck gs) cn)"
  using assms
  by (auto simp: Infect_def Let_def split: prod.splits outcome.splits sum.splits if_splits)

lemma Epidemic_frame:
  assumes "Epidemic gs cn = (r, gs')"
  shows "(CityDeck gs' = CityDeck gs \<or> CityDeck gs' = snd (DrawEpidemic (CityDeck gs)))
     \<and> InfectionRate gs' = InfectionRate gs
     \<and> (InfectionDeck gs' = snd (PullFromBottom (InfectionDeck gs) cn)
        \<or> InfectionDeck gs' = ShuffleDrawn (snd (PullFromBottom (InfectionDeck gs) cn)))"
  using assms
  by (auto simp: Epidemic_def Let_def split: prod.splits outcome.splits sum.splits if_splits)

lemma Quarantine_frame:
  assumes "Quarantine gs cn = (r, gs')"
  shows "CityDeck gs' = CityDeck gs \<and> InfectionRate gs' = InfectionRate gs
     \<and> InfectionDeck gs' = InfectionDeck gs"
  using assms by (auto simp: Quarantine_def split: sum.splits if_splits)

lemma RemoveQuarantine_frame:
  assumes "RemoveQuarantine gs cn = (r, gs')"
  shows "CityDeck gs' = CityDeck gs \<and> InfectionRate gs' = InfectionRate gs
     \<and> InfectionDeck gs' = InfectionDeck gs"
  using assms by (auto simp: RemoveQuarantine_def split: sum.splits if_splits)

lemma Infect_Cities:
  assumes "Infect gs cn = (r, gs')"
  shows "Cities gs' = Cities gs
     \<or> Cities gs' = updateCity City_RemoveQuarantine cn (Cities gs)
     \<or> Cities gs' = updateCity (snd \<circ> City_Infect) cn (Cities gs)"
  using assms
  by (auto simp: Infect_def Let_def split: prod.splits outcome.splits sum.splits if_splits)

lemma Epidemic_Cities:
  assumes "Epidemic gs cn = (r, gs')"
  shows "Cities gs' = Cities gs
     \<or> Cities gs' = updateCity City_RemoveQuarantine cn (Cities gs)
     \<or> Cities gs' = updateCity City_Epidemic cn (Cities gs)"
  using assms
  by (auto simp: Epidemic_def Let_def split: prod.splits outcome.splits sum.splits if_splits)

lemma Quarantine_Cities:
  assumes "Quarantine gs cn = (r, gs')"
  shows "Cities gs' = Cities gs \<or> Cities gs' = updateCity City_Quarantine cn (Cities gs)"
  using assms
  by (auto simp: Quarantine_def split: sum.splits if_splits)

lemma RemoveQuarantine_Cities:
  assumes "RemoveQuarantine gs cn = (r, gs')"
  shows "Cities gs' = Cities gs \<or> Cities gs' = updateCity City_RemoveQuarantine cn (Cities gs)"
  using assms
  by (auto simp: RemoveQuarantine_def split: sum.splits if_splits)

section \<open>Invariants of the reachable states\<close>

lemma reachable_levels:
  assumes "reachable cities gs" and "\<forall>c \<in> set cities. level_ok c"
  shows "\<forall>c \<in> set (Cities gs). level_ok c"
  using assms
proof (induction rule: reachable.induct)
  case (r_new diseases gameName)
  then show ?case by (simp add: NewGame_def)
next
  case (r_Infect gs cn r gs')
  then have "\<forall>c \<in> set (Cities gs). level_ok c" by simp
  with Infect_Cities [OF r_Infect(2)] show ?case
    using updateCity_pres [of "Cities gs" level_ok] level_ok_steps by (metis comp_apply)
next
  case (r_Epidemic gs cn r gs')
  then have "\<forall>c \<in> set (Cities gs). level_ok c" by simp
  with Epidemic_Cities [OF r_Epidemic(2)] show ?case
    using updateCity_pres [of "Cities gs" level_ok] level_ok_steps by metis
next
  case (r_Quarantine gs cn r gs')
  then have "\<forall>c \<in> set (Cities gs). level_ok c" by simp
  with Quarantine_Cities [OF r_Quarantine(2)] show ?case
    using updateCity_pres [of "Cities gs" level_ok] level_ok_steps by metis
next
  case (r_RemoveQuarantine gs cn r gs')
  then have "\<forall>c \<in> set (Cities gs). level_ok c" by simp
  with RemoveQuarantine_Cities [OF r_RemoveQuarantine(2)] show ?case
    using updateCity_pres [of "Cities gs" level_ok] level_ok_steps by metis
qed simp_all

lemma reachable_session_inv:
  assumes "reachable cities gs"
  shows "session_inv gs"
  using assms
proof (induction rule: reachable.induct)
  case (r_new diseases gameName)
  have "InfectionRate (NewGame diseases cities gameName) = 2"
    and "InfectionDeck (NewGame diseases cities gameName) = NewInfectionDeck (CityNames cities)"
    by (simp_all add: NewGame_def)
  then show ?case
    by (simp add: session_inv_def NumEpidemics_NewGame disjoint_piles_New)
next
  case (r_Infect gs cn r gs')
  with Infect_frame [OF r_Infect(2)] show ?case
    by (simp add: session_inv_def disjoint_piles_Draw)
next
  case (r_Epidemic gs cn r gs')
  with Epidemic_frame [OF r_Epidemic(2)] show ?case
    by (auto simp: session_inv_def disjoint_piles_Pull disjoint_piles_Shuffle
        NumEpidemics_DrawEpidemic)
next
  case (r_Quarantine gs cn r gs')
  with Quarantine_frame [OF r_Quarantine(2)] show ?case
    by (simp add: session_inv_def)
next
  case (r_RemoveQuarantine gs cn r gs')
  with RemoveQuarantine_frame [OF r_RemoveQuarantine(2)] show ?case
    by (simp add: session_inv_def)
next
  case (r_CityDeck_Draw gs cn r cd)
  then have "cd = snd (CityDeck_Draw (CityDeck gs) cn)" by simp
  with r_CityDeck_Draw show ?case
    by (simp add: session_inv_def NumEpidemics_CityDeck_Draw)
next
  case (r_DrawEpidemic gs r cd)
  then have "cd = snd (DrawEpidemic (CityDeck gs))" by simp
  with r_DrawEpidemic show ?case
    by (simp add: session_inv_def NumEpidemics_DrawEpidemic)
next
  case (r_InfectionDeck_Draw gs cn r d)
  then have "d = snd (InfectionDeck_Draw (InfectionDeck gs) cn)" by simp
  with r_InfectionDeck_Draw show ?case
    by (simp add: session_inv_def disjoint_piles_Draw)
next
  case (r_PullFromBottom gs cn r d)
  then have "d = snd (PullFromBottom (InfectionDeck gs) cn)" by simp
  with r_PullFromBottom show ?case
    by (simp add: session_inv_def disjoint_piles_Pull)
next
  case (r_ShuffleDrawn gs)
  then show ?case
    by (simp add: session_inv_def disjoint_piles_Shuffle)
qed

section \<open>Evaluating the examples\<close>

lemma replicate_numeral_unfold: "replicate (numeral k) x = x # replicate (pred_numeral k) x"
  by (simp add: numeral_eq_Suc)

lemmas example_defs = Lima_def Cairo_def new_game_def lima_quarantined_def
  negative_game_def infected_game_def City_zero_def

lemmas operation_defs = NewGame_def NewInfectionDeck_def CityNames_def CityCards_def
  EpidemicsPerGame_def Infect_def Epidemic_def Quarantine_def RemoveQuarantine_def
  InfectionDeck_Draw_def PullFromBottom_def ShuffleDrawn_def DrawEpidemic_def CityDeck_Draw_def
  NumEpidemics_def CityDeck_Total_def EpidemicsDrawn_def cardsPerEpidemic_def
  City_Infect_def City_Epidemic_def City_Quarantine_def City_RemoveQuarantine_def Let_def
  replicate_numeral_unfold

lemmas probability_defs = ProbabilityOfCity_def probabilityOfEpidemic_def BottomStriation_def
  ProbabilityOfDrawing_def CanOutbreak_def fcard_finsert_if

lemma lima_quarantined_eq:
  "lima_quarantined =
     \<lparr>Cities = [Lima\<lparr>NumInfections := 1, Quarantined := True\<rparr>, Cairo\<lparr>NumInfections := 1\<rparr>],
      CityDeck = \<lparr>CityDeck_Drawn = [], CityDeck_All = CityCards [Lima, Cairo] 5\<rparr>,
      DiseaseData = [],
      InfectionDeck = \<lparr>InfectionDeck_Drawn = [''Cairo'', ''Lima''],
                        InfectionDeck_Striations = [{||}]\<rparr>,
      InfectionRate = 2, Outbreaks = 0, GameName = ''g''\<rparr>"
  by (simp add: example_defs operation_defs)

lemma reachable_lima_quarantined: "reachable [Lima, Cairo] lima_quarantined"
proof -
  have 0: "reachable [Lima, Cairo] new_game"
    unfolding new_game_def by (rule reachable.r_new)
  have 1: "reachable [Lima, Cairo] (snd (Infect new_game ''Lima''))"
    by (rule reachable.r_Infect [OF 0, of "''Lima''" "fst (Infect new_game ''Lima'')"])
       (simp_all add: example_defs operation_defs)
  let ?s1 = "snd (Infect new_game ''Lima'')"
  have 2: "reachable [Lima, Cairo] (snd (Infect ?s1 ''Cairo''))"
    by (rule reachable.r_Infect [OF 1, of "''Cairo''" "fst (Infect ?s1 ''Cairo'')"])
       (simp_all add: example_defs operation_defs)
  let ?s2 = "snd (Infect ?s1 ''Cairo'')"
  have 3: "reachable [Lima, Cairo] (snd (Quarantine ?s2 ''Lima''))"
    by (rule reachable.r_Quarantine [OF 2, of "''Lima''" "fst (Quarantine ?s2 ''Lima'')"])
       (simp_all add: example_defs operation_defs)
  then show ?thesis by (simp add: lima_quarantined_def)
qed

lemma reachable_draw_epidemics:
  "reachable cities gs \<Longrightarrow> reachable cities (draw_epidemics n gs)"
proof (induction n arbitrary: gs)
  case 0
  then show ?case by simp
next
  case (Suc n)
  have "reachable cities (gs\<lparr>CityDeck := snd (DrawEpidemic (CityDeck gs))\<rparr>)"
    by (rule reachable.r_DrawEpidemic [OF Suc.prems, of "fst (DrawEpidemic (CityDeck gs))"])
       (simp_all add: DrawEpidemic_def Let_def)
  from Suc.IH [OF this] show ?case by simp
qed

lemma draw_epidemics_numeral:
  "draw_epidemics (numeral k) gs =
     draw_epidemics (pred_numeral k) (gs\<lparr>CityDeck := snd (DrawEpidemic (CityDeck gs))\<rparr>)"
  by (simp add: numeral_eq_Suc)

lemma five_epidemics_drawn:
  "draw_epidemics 5 new_game =
     new_game\<lparr>CityDeck :=
       \<lparr>CityDeck_Drawn = replicate 5 \<lparr>City = City_zero, IsEpidemic = True\<rparr>,
        CityDeck_All = CityCards [Lima, Cairo] 5\<rparr>\<rparr>"
  by (simp add: draw_epidemics_numeral new_game_def NewGame_def DrawEpidemic_def NumEpidemics_def
      CityCards_def EpidemicsPerGame_def replicate_numeral_unfold Let_def)

lemma epidemics_exhausted_eq:
  "Infect (draw_epidemics 5 new_game) ''Lima'' = (Success, epidemics_exhausted)
   \<and> epidemics_exhausted =
     \<lparr>Cities = [Lima\<lparr>NumInfections := 1\<rparr>, Cairo],
      CityDeck = \<lparr>CityDeck_Drawn = replicate 5 \<lparr>City = City_zero, IsEpidemic = True\<rparr>,
                  CityDeck_All = CityCards [Lima, Cairo] 5\<rparr>,
      DiseaseData = [],
      InfectionDeck = \<lparr>InfectionDeck_Drawn = [''Lima''],
                        InfectionDeck_Striations = [{|''Cairo''|}]\<rparr>,
      InfectionRate = 2, Outbreaks = 0, GameName = ''g''\<rparr>"
  unfolding epidemics_exhausted_def five_epidemics_drawn
  by (simp add: Lima_def Cairo_def new_game_def City_zero_def operation_defs)

lemma reachable_epidemics_exhausted: "reachable [Lima, Cairo] epidemics_exhausted"
proof -
  have "reachable [Lima, Cairo] new_game"
    unfolding new_game_def by (rule reachable.r_new)
  then have "reachable [Lima, Cairo] (draw_epidemics 5 new_game)"
    by (rule reachable_draw_epidemics)
  then show ?thesis
    using epidemics_exhausted_eq [THEN conjunct1] by (rule reachable.r_Infect) simp
qed

lemma deck96_counts:
  "CityDeck_Total deck96 = 96" "NumEpidemics deck96 = 6" "length (CityDeck_Drawn deck96) = 5"
  "EpidemicsDrawn deck96 = 0"
  by (simp_all add: deck96_def CityDeck_Total_def NumEpidemics_def EpidemicsDrawn_def
      CityCards_def o_def)

section \<open>The epidemic and the drawn pile\<close>

text \<open>
  The two branches of \<^verbatim>\<open>Epidemic\<close> after the pull and the draw of the epidemic card
  have succeeded: for a city that is not quarantined the drawn pile is restacked, for a
  quarantined city the infection deck stays as the pull left it.
\<close>

lemma Epidemic_restacks:
  assumes "PullFromBottom (InfectionDeck gs) cn = (Success, d)"
    and "DrawEpidemic (CityDeck gs) = (Success, cd)"
    and "GetCity (Cities gs) cn = Inr city" and "\<not> Quarantined city"
  shows "fst (Epidemic gs cn) = Success"
    and "InfectionDeck (snd (Epidemic gs cn)) = ShuffleDrawn d"
  using assms by (simp_all add: Epidemic_def Let_def)

lemma Epidemic_quarantined_returns:
  assumes "PullFromBottom (InfectionDeck gs) cn = (Success, d)"
    and "DrawEpidemic (CityDeck gs) = (Success, cd)"
    and "GetCity (Cities gs) cn = Inr city" and "Quarantined city"
  shows "fst (Epidemic gs cn) = Success"
    and "InfectionDeck (snd (Epidemic gs cn)) = d"
  using assms by (simp_all add: Epidemic_def Let_def)

text \<open>
  C1. The property: for a city name in the drawn pile of the infection deck, a call of
  \<^verbatim>\<open>Epidemic\<close> that succeeds ends with \<^verbatim>\<open>ShuffleDrawn\<close>, whether or not the city was
  quarantined: the drawn pile becomes one new striation at index 0 and is empty
  afterwards.

  The code returns from the quarantine branch before it reaches \<^verbatim>\<open>ShuffleDrawn\<close>
  (game_state.go, lines 90 to 93); the other branch does call it. In the session
  \<open>lima_quarantined\<close> (both cities infected, then Lima quarantined) the drawn pile holds
  Cairo and Lima. \<^verbatim>\<open>Epidemic\<close> on Lima succeeds, and afterwards the drawn pile still
  holds Cairo and the striations are the ones from before the call: nothing was restacked.
\<close>

theorem Epidemic_quarantined_skips_ShuffleDrawn:
  "''Lima'' \<in> set (InfectionDeck_Drawn (InfectionDeck lima_quarantined))
   \<and> fst (Epidemic lima_quarantined ''Lima'') = Success
   \<and> InfectionDeck_Drawn (InfectionDeck (snd (Epidemic lima_quarantined ''Lima''))) = [''Cairo'']
   \<and> InfectionDeck_Striations (InfectionDeck (snd (Epidemic lima_quarantined ''Lima'')))
       = InfectionDeck_Striations (InfectionDeck lima_quarantined)"
  by (simp add: lima_quarantined_eq example_defs operation_defs)

section \<open>Bounds of the probability\<close>

text \<open>
  C2. In every reachable state and for every city name, \<^verbatim>\<open>ProbabilityOfCity\<close> returns
  (it does not panic) a value in the closed interval from 0 to 1.

  The probability of an epidemic can be 2, on the last card of a phase. In a reachable
  state no name is both drawn and in a striation, so the two branches of the result weigh
  the same value, and the result is that value.
\<close>

theorem ProbabilityOfCity_bounds:
  assumes "reachable cities gs"
  shows "\<exists>p. ProbabilityOfCity gs cn = Some p \<and> 0 \<le> p \<and> p \<le> 1"
proof -
  from reachable_session_inv [OF assms]
  have ne: "1 \<le> NumEpidemics (CityDeck gs)" and rate: "InfectionRate gs = 2"
    and disj: "disjoint_piles (InfectionDeck gs)"
    by (simp_all add: session_inv_def)
  from ne probabilityOfEpidemic_None_iff [of "CityDeck gs"]
  obtain pEpi where pEpi: "probabilityOfEpidemic (CityDeck gs) = Some pEpi"
    by (cases "probabilityOfEpidemic (CityDeck gs)") auto
  let ?d = "InfectionDeck gs"
  let ?x = "if cn |\<in>| BottomStriation ?d then 1 / real (fcard (BottomStriation ?d))
      else if cn \<in> set (InfectionDeck_Drawn ?d)
      then 2 / (1 + real (length (InfectionDeck_Drawn ?d)))
      else 0"
  have x: "0 \<le> ?x \<and> ?x \<le> 1"
    using inv_fcard_bounds [of cn "BottomStriation ?d"]
      drawn_ratio_bounds [of cn "InfectionDeck_Drawn ?d"] by simp
  show ?thesis
  proof (cases "GetCity (Cities gs) cn")
    case (Inl e)
    then show ?thesis by (simp add: ProbabilityOfCity_def)
  next
    case (Inr city)
    show ?thesis
    proof (cases "Quarantined city")
      case True
      with Inr show ?thesis by (simp add: ProbabilityOfCity_def)
    next
      case False
      with Inr pEpi rate have "ProbabilityOfCity gs cn = Some (pEpi * ?x + (1 - pEpi) * ?x)"
        by (simp add: ProbabilityOfCity_def Let_def ProbabilityOfDrawing_agrees [OF disj])
      then have "ProbabilityOfCity gs cn = Some ?x"
        by (simp only: mix_same)
      with x show ?thesis by simp
    qed
  qed
qed

theorem ProbabilityOfCity_bounds_witness:
  "reachable [Lima, Cairo] lima_quarantined
   \<and> ProbabilityOfCity lima_quarantined ''Cairo'' = Some (2 / 3)
   \<and> (\<exists>p. ProbabilityOfCity lima_quarantined ''Cairo'' = Some p \<and> 0 \<le> p \<and> p \<le> 1)"
proof -
  have "ProbabilityOfCity lima_quarantined ''Cairo'' = Some (2 / 3)"
    by (simp add: lima_quarantined_eq example_defs operation_defs probability_defs)
  then show ?thesis
    using reachable_lima_quarantined
      ProbabilityOfCity_bounds [OF reachable_lima_quarantined, of "''Cairo''"]
    by simp
qed

section \<open>Operations that return an error\<close>

text \<open>
  C3, as stated (an operation that returns an error has changed no part of the state),
  fails for \<^verbatim>\<open>Epidemic\<close>: the name is pulled from the drawn pile first, and the
  epidemic card is drawn after that. In the session \<open>epidemics_exhausted\<close> all five
  epidemic cards are drawn and Lima is in the drawn pile: the second step returns its
  error, and Lima has left the drawn pile.
\<close>

theorem Epidemic_failure_keeps_pull:
  "reachable [Lima, Cairo] epidemics_exhausted
   \<and> fst (Epidemic epidemics_exhausted ''Lima'') = Failure (AlreadyDrawnEpidemics 5)
   \<and> InfectionDeck_Drawn (InfectionDeck epidemics_exhausted) = [''Lima'']
   \<and> InfectionDeck_Drawn (InfectionDeck (snd (Epidemic epidemics_exhausted ''Lima''))) = []
   \<and> snd (Epidemic epidemics_exhausted ''Lima'') \<noteq> epidemics_exhausted"
proof -
  note eq = epidemics_exhausted_eq [THEN conjunct2]
  have a: "fst (Epidemic epidemics_exhausted ''Lima'') = Failure (AlreadyDrawnEpidemics 5)"
    unfolding eq by (simp add: example_defs operation_defs)
  have b: "InfectionDeck_Drawn (InfectionDeck epidemics_exhausted) = [''Lima'']"
    unfolding eq by simp
  have c: "InfectionDeck_Drawn (InfectionDeck (snd (Epidemic epidemics_exhausted ''Lima''))) = []"
    unfolding eq by (simp add: example_defs operation_defs)
  from b c have "snd (Epidemic epidemics_exhausted ''Lima'') \<noteq> epidemics_exhausted"
    by auto
  with a b c reachable_epidemics_exhausted show ?thesis by simp
qed

text \<open>
  C3, amended. \<^verbatim>\<open>Quarantine\<close>, \<^verbatim>\<open>RemoveQuarantine\<close>, \<^verbatim>\<open>CityDeck.Draw\<close> and
  \<^verbatim>\<open>CityDeck.DrawEpidemic\<close> leave the state as it was whenever they return an error.
  \<^verbatim>\<open>Infect\<close> and \<^verbatim>\<open>Epidemic\<close> that return an error leave everything but the
  infection deck as it was, and the infection deck as their first step (the operation of
  the infection deck) left it: unchanged when the error is the one of this first step.
\<close>

theorem failed_operation_unchanged:
  "(failed (fst (Quarantine gs1 cn1)) \<longrightarrow> snd (Quarantine gs1 cn1) = gs1)
   \<and> (failed (fst (RemoveQuarantine gs2 cn2)) \<longrightarrow> snd (RemoveQuarantine gs2 cn2) = gs2)
   \<and> (failed (fst (CityDeck_Draw c3 cn3)) \<longrightarrow> snd (CityDeck_Draw c3 cn3) = c3)
   \<and> (failed (fst (DrawEpidemic c4)) \<longrightarrow> snd (DrawEpidemic c4) = c4)
   \<and> (failed (fst (Infect gs5 cn5)) \<longrightarrow>
        snd (Infect gs5 cn5)
          = gs5\<lparr>InfectionDeck := snd (InfectionDeck_Draw (InfectionDeck gs5) cn5)\<rparr>
        \<and> (failed (fst (InfectionDeck_Draw (InfectionDeck gs5) cn5))
             \<longrightarrow> snd (Infect gs5 cn5) = gs5))
   \<and> (failed (fst (Epidemic gs6 cn6)) \<longrightarrow>
        snd (Epidemic gs6 cn6)
          = gs6\<lparr>InfectionDeck := snd (PullFromBottom (InfectionDeck gs6) cn6)\<rparr>
        \<and> (failed (fst (PullFromBottom (InfectionDeck gs6) cn6))
             \<longrightarrow> snd (Epidemic gs6 cn6) = gs6))"
proof (intro conjI)
  show "failed (fst (Quarantine gs1 cn1)) \<longrightarrow> snd (Quarantine gs1 cn1) = gs1"
    by (auto simp: Quarantine_def split: sum.splits if_splits)
  show "failed (fst (RemoveQuarantine gs2 cn2)) \<longrightarrow> snd (RemoveQuarantine gs2 cn2) = gs2"
    by (auto simp: RemoveQuarantine_def split: sum.splits if_splits)
  show "failed (fst (CityDeck_Draw c3 cn3)) \<longrightarrow> snd (CityDeck_Draw c3 cn3) = c3"
    by (auto simp: CityDeck_Draw_def split: option.splits if_splits)
  show "failed (fst (DrawEpidemic c4)) \<longrightarrow> snd (DrawEpidemic c4) = c4"
    by (auto simp: DrawEpidemic_def Let_def split: if_splits)
  show "failed (fst (Infect gs5 cn5)) \<longrightarrow>
        snd (Infect gs5 cn5)
          = gs5\<lparr>InfectionDeck := snd (InfectionDeck_Draw (InfectionDeck gs5) cn5)\<rparr>
        \<and> (failed (fst (InfectionDeck_Draw (InfectionDeck gs5) cn5))
             \<longrightarrow> snd (Infect gs5 cn5) = gs5)"
    by (auto simp: Infect_def InfectionDeck_Draw_def Let_def split: sum.splits if_splits)
  show "failed (fst (Epidemic gs6 cn6)) \<longrightarrow>
        snd (Epidemic gs6 cn6)
          = gs6\<lparr>InfectionDeck := snd (PullFromBottom (InfectionDeck gs6) cn6)\<rparr>
        \<and> (failed (fst (PullFromBottom (InfectionDeck gs6) cn6))
             \<longrightarrow> snd (Epidemic gs6 cn6) = gs6)"
    by (auto simp: Epidemic_def PullFromBottom_def DrawEpidemic_def Let_def
        split: sum.splits if_splits)
qed

theorem failed_operation_unchanged_witness:
  "failed (fst (Quarantine new_game ''Paris''))
   \<and> snd (Quarantine new_game ''Paris'') = new_game
   \<and> failed (fst (RemoveQuarantine new_game ''Lima''))
   \<and> snd (RemoveQuarantine new_game ''Lima'') = new_game
   \<and> failed (fst (CityDeck_Draw (CityDeck new_game) ''Paris''))
   \<and> snd (CityDeck_Draw (CityDeck new_game) ''Paris'') = CityDeck new_game
   \<and> failed (fst (DrawEpidemic (CityDeck epidemics_exhausted)))
   \<and> snd (DrawEpidemic (CityDeck epidemics_exhausted)) = CityDeck epidemics_exhausted
   \<and> failed (fst (Infect new_game ''Paris''))
   \<and> failed (fst (InfectionDeck_Draw (InfectionDeck new_game) ''Paris''))
   \<and> snd (Infect new_game ''Paris'') = new_game
   \<and> failed (fst (Epidemic new_game ''Lima''))
   \<and> failed (fst (PullFromBottom (InfectionDeck new_game) ''Lima''))
   \<and> snd (Epidemic new_game ''Lima'') = new_game"
proof -
  have h1: "failed (fst (Quarantine new_game ''Paris''))"
    by (simp add: example_defs operation_defs)
  have h2: "failed (fst (RemoveQuarantine new_game ''Lima''))"
    by (simp add: example_defs operation_defs)
  have h3: "failed (fst (CityDeck_Draw (CityDeck new_game) ''Paris''))"
    by (simp add: example_defs operation_defs)
  have h4: "failed (fst (DrawEpidemic (CityDeck epidemics_exhausted)))"
    unfolding epidemics_exhausted_eq [THEN conjunct2]
    by (simp add: example_defs operation_defs)
  have h5: "failed (fst (InfectionDeck_Draw (InfectionDeck new_game) ''Paris''))"
    by (simp add: example_defs operation_defs)
  have h5': "failed (fst (Infect new_game ''Paris''))"
    by (simp add: example_defs operation_defs)
  have h6: "failed (fst (PullFromBottom (InfectionDeck new_game) ''Lima''))"
    by (simp add: example_defs operation_defs)
  have h6': "failed (fst (Epidemic new_game ''Lima''))"
    by (simp add: example_defs operation_defs)
  note t = failed_operation_unchanged [of new_game "''Paris''" new_game "''Lima''"
        "CityDeck new_game" "''Paris''" "CityDeck epidemics_exhausted"
        new_game "''Paris''" new_game "''Lima''"]
  from t h1 have c1: "snd (Quarantine new_game ''Paris'') = new_game" by blast
  from t h2 have c2: "snd (RemoveQuarantine new_game ''Lima'') = new_game" by blast
  from t h3 have c3: "snd (CityDeck_Draw (CityDeck new_game) ''Paris'') = CityDeck new_game"
    by blast
  from t h4
  have c4: "snd (DrawEpidemic (CityDeck epidemics_exhausted)) = CityDeck epidemics_exhausted"
    by blast
  from t h5 h5' have c5: "snd (Infect new_game ''Paris'') = new_game" by blast
  from t h6 h6' have c6: "snd (Epidemic new_game ''Lima'') = new_game" by blast
  from h1 h2 h3 h4 h5 h5' h6 h6' c1 c2 c3 c4 c5 c6 show ?thesis by blast
qed

section \<open>The probability of an epidemic\<close>

text \<open>
  C4. For a city deck with at least one epidemic card, \<^verbatim>\<open>probabilityOfEpidemic\<close> is:
  with \<open>cardsPerShockPhase\<close> the integer quotient of the number of cards by the number
  of epidemic cards and \<open>phase\<close> the floor of the number of drawn cards divided by
  \<open>cardsPerShockPhase\<close>, the value 2 / (cardsPerShockPhase - (drawnCount mod
  cardsPerShockPhase)) if \<open>phase\<close> is the number of epidemic cards drawn, and 0 otherwise.
  With 96 cards, 6 epidemic cards and 5 cards drawn, none of them an epidemic, it is 2/11.
\<close>

theorem probabilityOfEpidemic_formula:
  "(1 \<le> NumEpidemics c \<longrightarrow>
      probabilityOfEpidemic c =
        (let cardsPerShockPhase = CityDeck_Total c div NumEpidemics c;
             drawnCount = int (length (CityDeck_Drawn c));
             phase = \<lfloor>real_of_int drawnCount / real_of_int cardsPerShockPhase\<rfloor>
         in if phase = EpidemicsDrawn c
            then Some (2 / real_of_int (cardsPerShockPhase - drawnCount mod cardsPerShockPhase))
            else Some 0))
   \<and> (CityDeck_Total d = 96 \<and> NumEpidemics d = 6 \<and> length (CityDeck_Drawn d) = 5
        \<and> EpidemicsDrawn d = 0
      \<longrightarrow> probabilityOfEpidemic d = Some (2 / 11))"
proof (intro conjI impI)
  assume ne: "1 \<le> NumEpidemics c"
  then have cpe: "cardsPerEpidemic c = Some (CityDeck_Total c div NumEpidemics c)"
    by (simp add: cardsPerEpidemic_def)
  from cardsPerEpidemic_pos [OF cpe] have pos: "CityDeck_Total c div NumEpidemics c \<noteq> 0"
    by simp
  show "probabilityOfEpidemic c =
        (let cardsPerShockPhase = CityDeck_Total c div NumEpidemics c;
             drawnCount = int (length (CityDeck_Drawn c));
             phase = \<lfloor>real_of_int drawnCount / real_of_int cardsPerShockPhase\<rfloor>
         in if phase = EpidemicsDrawn c
            then Some (2 / real_of_int (cardsPerShockPhase - drawnCount mod cardsPerShockPhase))
            else Some 0)"
    by (simp add: probabilityOfEpidemic_def cpe pos Let_def)
next
  assume h: "CityDeck_Total d = 96 \<and> NumEpidemics d = 6 \<and> length (CityDeck_Drawn d) = 5
        \<and> EpidemicsDrawn d = 0"
  then show "probabilityOfEpidemic d = Some (2 / 11)"
    by (simp add: probabilityOfEpidemic_def cardsPerEpidemic_def Let_def)
qed

theorem probabilityOfEpidemic_formula_witness:
  "1 \<le> NumEpidemics deck96 \<and> CityDeck_Total deck96 = 96 \<and> NumEpidemics deck96 = 6
   \<and> length (CityDeck_Drawn deck96) = 5 \<and> EpidemicsDrawn deck96 = 0
   \<and> probabilityOfEpidemic deck96 = Some (2 / 11)"
  using probabilityOfEpidemic_formula [of deck96 deck96] deck96_counts by simp

section \<open>Quarantined cities\<close>

text \<open>
  C5. For a city whose quarantine flag is set (the city \<^verbatim>\<open>GetCity\<close> finds under the
  name), \<^verbatim>\<open>ProbabilityOfCity\<close> returns exactly 0, whatever the two decks hold.
\<close>

theorem ProbabilityOfCity_quarantined:
  "GetCity (Cities gs) cn = Inr city \<Longrightarrow> Quarantined city \<Longrightarrow> ProbabilityOfCity gs cn = Some 0"
  by (simp add: ProbabilityOfCity_def)

theorem ProbabilityOfCity_quarantined_witness:
  "GetCity (Cities lima_quarantined) ''Lima'' = Inr (Lima\<lparr>NumInfections := 1, Quarantined := True\<rparr>)
   \<and> Quarantined (Lima\<lparr>NumInfections := 1, Quarantined := True\<rparr>)
   \<and> ProbabilityOfCity lima_quarantined ''Lima'' = Some 0"
proof -
  have a: "GetCity (Cities lima_quarantined) ''Lima''
      = Inr (Lima\<lparr>NumInfections := 1, Quarantined := True\<rparr>)"
    by (simp add: lima_quarantined_eq Lima_def)
  have b: "Quarantined (Lima\<lparr>NumInfections := 1, Quarantined := True\<rparr>)"
    by simp
  from ProbabilityOfCity_quarantined [OF a b] a b show ?thesis by simp
qed

section \<open>Outbreaks\<close>

text \<open>
  C6, as stated (\<^verbatim>\<open>CanOutbreak\<close> is true exactly when the infection level is greater
  than 0, the probability is not 0, and the level is 3 or the city is in the bottom
  striation), fails for a negative level: the code compares the level with 0 for
  equality only. In a new game on a catalog that gives Lima the level -1, Lima is in the
  bottom striation with a probability of 1/2, and \<^verbatim>\<open>CanOutbreak\<close> is true.
\<close>

theorem CanOutbreak_negative_level:
  "CanOutbreak negative_game ''Lima'' = Some True
   \<and> GetCity (Cities negative_game) ''Lima'' = Inr (Lima\<lparr>NumInfections := - 1\<rparr>)
   \<and> \<not> 0 < NumInfections (Lima\<lparr>NumInfections := - 1\<rparr>)"
  by (simp add: example_defs operation_defs probability_defs)

text \<open>
  C6, amended. \<^verbatim>\<open>CanOutbreak\<close> returns true if and only if the name is a city whose
  infection level is not 0, \<^verbatim>\<open>ProbabilityOfCity\<close> returns a value that is not 0, and
  the level is 3 or the city is in the bottom striation of the infection deck. A city
  of level 0 gives false, whatever the probability. For the levels 0 to 3 of the data
  model, "not 0" is "greater than 0".
\<close>

theorem CanOutbreak_iff:
  "(CanOutbreak gs cn = Some True \<longleftrightarrow>
     (\<exists>city prob. GetCity (Cities gs) cn = Inr city \<and> NumInfections city \<noteq> 0
        \<and> ProbabilityOfCity gs cn = Some prob \<and> prob \<noteq> 0
        \<and> (NumInfections city = 3 \<or> cn |\<in>| BottomStriation (InfectionDeck gs))))
   \<and> (\<forall>city. GetCity (Cities gs) cn = Inr city \<and> NumInfections city = 0
        \<longrightarrow> CanOutbreak gs cn = Some False)"
  by (auto simp: CanOutbreak_def split: sum.splits option.splits if_splits)

theorem CanOutbreak_iff_witness:
  "CanOutbreak infected_game ''Lima'' = Some True
   \<and> GetCity (Cities infected_game) ''Lima'' = Inr (Lima\<lparr>NumInfections := 2\<rparr>)
   \<and> ProbabilityOfCity infected_game ''Lima'' = Some (1 / 2)
   \<and> ''Lima'' |\<in>| BottomStriation (InfectionDeck infected_game)
   \<and> GetCity (Cities new_game) ''Lima'' = Inr Lima \<and> NumInfections Lima = 0
   \<and> CanOutbreak new_game ''Lima'' = Some False"
proof -
  have a: "GetCity (Cities infected_game) ''Lima'' = Inr (Lima\<lparr>NumInfections := 2\<rparr>)"
    by (simp add: example_defs operation_defs)
  have b: "ProbabilityOfCity infected_game ''Lima'' = Some (1 / 2)"
    by (simp add: example_defs operation_defs probability_defs)
  have c: "''Lima'' |\<in>| BottomStriation (InfectionDeck infected_game)"
    by (simp add: example_defs operation_defs probability_defs)
  have d: "GetCity (Cities new_game) ''Lima'' = Inr Lima"
    by (simp add: example_defs operation_defs)
  have e: "NumInfections Lima = 0" by (simp add: Lima_def)
  have "\<exists>city prob. GetCity (Cities infected_game) ''Lima'' = Inr city
      \<and> NumInfections city \<noteq> 0
      \<and> ProbabilityOfCity infected_game ''Lima'' = Some prob \<and> prob \<noteq> 0
      \<and> (NumInfections city = 3 \<or> ''Lima'' |\<in>| BottomStriation (InfectionDeck infected_game))"
    by (intro exI [of _ "Lima\<lparr>NumInfections := 2\<rparr>"] exI [of _ "1 / 2"]) (simp add: a b c)
  then have t: "CanOutbreak infected_game ''Lima'' = Some True"
    by (rule CanOutbreak_iff [of infected_game "''Lima''", THEN conjunct1, THEN iffD2])
  have f: "CanOutbreak new_game ''Lima'' = Some False"
    using CanOutbreak_iff [of new_game "''Lima''", THEN conjunct2] d e by simp
  from t f a b c d e show ?thesis by simp
qed

section \<open>Infection levels\<close>

text \<open>
  C7, as stated (from a catalog whose infection levels are all at most 3, every level
  stays in 0..3), fails for a catalog with a negative level, which is at most 3 and
  which no operation checks: the new game on it has a city of level -1.
\<close>

theorem infection_level_negative_catalog:
  "reachable [Lima\<lparr>NumInfections := - 1\<rparr>, Cairo] negative_game
   \<and> NumInfections (Lima\<lparr>NumInfections := - 1\<rparr>) \<le> 3 \<and> NumInfections Cairo \<le> 3
   \<and> Lima\<lparr>NumInfections := - 1\<rparr> \<in> set (Cities negative_game)
   \<and> \<not> 0 \<le> NumInfections (Lima\<lparr>NumInfections := - 1\<rparr>)"
proof -
  have "reachable [Lima\<lparr>NumInfections := - 1\<rparr>, Cairo] negative_game"
    unfolding negative_game_def by (rule reachable.r_new)
  then show ?thesis
    by (simp add: example_defs operation_defs)
qed

text \<open>
  C7, amended. In every state reachable from a catalog whose infection levels are all
  in 0..3, the infection level of every city is in 0..3. \<^verbatim>\<open>City.Infect\<close> on a city of
  level 3 returns true and leaves the level at 3; on any other level it returns false and
  adds one.
\<close>

theorem infection_level_invariant:
  assumes "reachable cities gs"
    and "\<forall>c \<in> set cities. 0 \<le> NumInfections c \<and> NumInfections c \<le> 3"
  shows "(\<forall>c \<in> set (Cities gs). 0 \<le> NumInfections c \<and> NumInfections c \<le> 3)
     \<and> (\<forall>c. NumInfections c = 3 \<longrightarrow> City_Infect c = (True, c))
     \<and> (\<forall>c. NumInfections c \<noteq> 3 \<longrightarrow>
           City_Infect c = (False, c\<lparr>NumInfections := NumInfections c + 1\<rparr>))"
  using reachable_levels [OF assms(1)] assms(2)
  by (simp add: level_ok_def City_Infect_def)

theorem infection_level_invariant_witness:
  "reachable [Lima, Cairo] lima_quarantined
   \<and> 0 \<le> NumInfections Lima \<and> NumInfections Lima \<le> 3
   \<and> 0 \<le> NumInfections Cairo \<and> NumInfections Cairo \<le> 3
   \<and> map NumInfections (Cities lima_quarantined) = [1, 1]
   \<and> City_Infect (Lima\<lparr>NumInfections := 3\<rparr>) = (True, Lima\<lparr>NumInfections := 3\<rparr>)"
proof -
  have h: "\<forall>c \<in> set [Lima, Cairo]. 0 \<le> NumInfections c \<and> NumInfections c \<le> 3"
    by (simp add: Lima_def Cairo_def)
  have "map NumInfections (Cities lima_quarantined) = [1, 1]"
    by (simp add: lima_quarantined_eq Lima_def Cairo_def)
  then show ?thesis
    using infection_level_invariant [OF reachable_lima_quarantined h]
      reachable_lima_quarantined h
    by simp
qed

section \<open>Drawing from the city deck\<close>

text \<open>
  C8. \<^verbatim>\<open>CityDeck.Draw\<close> on a name: if a drawn card has this name it fails with the
  error of a card already drawn; if no drawn card and no card of the deck has this name
  it fails with the error of a city that is not in the deck; otherwise it appends the
  first card of the deck with this name to the drawn cards and succeeds. A failed call
  leaves the deck as it was.
\<close>

theorem CityDeck_Draw_cases:
  "((\<exists>crd \<in> set (CityDeck_Drawn c). Name (City crd) = cn)
      \<longrightarrow> CityDeck_Draw c cn = (Failure (AlreadyDrawn cn), c))
   \<and> ((\<forall>crd \<in> set (CityDeck_Drawn c). Name (City crd) \<noteq> cn)
        \<and> (\<forall>crd \<in> set (CityDeck_All c). Name (City crd) \<noteq> cn)
      \<longrightarrow> CityDeck_Draw c cn = (Failure (NoCityCalled cn), c))
   \<and> ((\<forall>crd \<in> set (CityDeck_Drawn c). Name (City crd) \<noteq> cn)
        \<and> (\<exists>crd \<in> set (CityDeck_All c). Name (City crd) = cn)
      \<longrightarrow> (\<exists>crd \<in> set (CityDeck_All c). Name (City crd) = cn
            \<and> find (\<lambda>k. Name (City k) = cn) (CityDeck_All c) = Some crd
            \<and> CityDeck_Draw c cn = (Success, c\<lparr>CityDeck_Drawn := CityDeck_Drawn c @ [crd]\<rparr>)))"
proof (intro conjI impI)
  assume "\<exists>crd \<in> set (CityDeck_Drawn c). Name (City crd) = cn"
  then show "CityDeck_Draw c cn = (Failure (AlreadyDrawn cn), c)"
    by (simp add: CityDeck_Draw_def)
next
  assume h: "(\<forall>crd \<in> set (CityDeck_Drawn c). Name (City crd) \<noteq> cn)
        \<and> (\<forall>crd \<in> set (CityDeck_All c). Name (City crd) \<noteq> cn)"
  then have "find (\<lambda>crd. Name (City crd) = cn) (CityDeck_All c) = None"
    by (simp add: find_None_iff)
  with h show "CityDeck_Draw c cn = (Failure (NoCityCalled cn), c)"
    by (simp add: CityDeck_Draw_def)
next
  assume h: "(\<forall>crd \<in> set (CityDeck_Drawn c). Name (City crd) \<noteq> cn)
        \<and> (\<exists>crd \<in> set (CityDeck_All c). Name (City crd) = cn)"
  then obtain k where k: "find (\<lambda>crd. Name (City crd) = cn) (CityDeck_All c) = Some k"
    by (cases "find (\<lambda>crd. Name (City crd) = cn) (CityDeck_All c)") (auto simp: find_None_iff)
  then have "k \<in> set (CityDeck_All c)" "Name (City k) = cn"
    by (auto simp: find_Some_iff)
  moreover from h k
  have "CityDeck_Draw c cn = (Success, c\<lparr>CityDeck_Drawn := CityDeck_Drawn c @ [k]\<rparr>)"
    by (simp add: CityDeck_Draw_def)
  ultimately show "\<exists>crd \<in> set (CityDeck_All c). Name (City crd) = cn
            \<and> find (\<lambda>k. Name (City k) = cn) (CityDeck_All c) = Some crd
            \<and> CityDeck_Draw c cn = (Success, c\<lparr>CityDeck_Drawn := CityDeck_Drawn c @ [crd]\<rparr>)"
    using k by blast
qed

theorem CityDeck_Draw_cases_witness:
  "CityDeck_Draw (CityDeck new_game) ''Lima''
     = (Success, (CityDeck new_game)\<lparr>CityDeck_Drawn := [\<lparr>City = Lima, IsEpidemic = False\<rparr>]\<rparr>)
   \<and> CityDeck_Draw lima_drawn ''Lima'' = (Failure (AlreadyDrawn ''Lima''), lima_drawn)
   \<and> CityDeck_Draw lima_drawn ''Paris'' = (Failure (NoCityCalled ''Paris''), lima_drawn)"
proof -
  have d: "CityDeck_Drawn (CityDeck new_game) = []"
    and a: "CityDeck_All (CityDeck new_game) =
      [\<lparr>City = Lima, IsEpidemic = False\<rparr>, \<lparr>City = Cairo, IsEpidemic = False\<rparr>,
       \<lparr>City = City_zero, IsEpidemic = True\<rparr>, \<lparr>City = City_zero, IsEpidemic = True\<rparr>,
       \<lparr>City = City_zero, IsEpidemic = True\<rparr>, \<lparr>City = City_zero, IsEpidemic = True\<rparr>,
       \<lparr>City = City_zero, IsEpidemic = True\<rparr>]"
    by (simp_all add: new_game_def operation_defs)
  have names: "Name Lima = ''Lima''" "Name Cairo = ''Cairo''" "Name City_zero = []"
    by (simp_all add: example_defs)
  have 1: "CityDeck_Draw (CityDeck new_game) ''Lima''
     = (Success, (CityDeck new_game)\<lparr>CityDeck_Drawn := [\<lparr>City = Lima, IsEpidemic = False\<rparr>]\<rparr>)"
    using CityDeck_Draw_cases [of "CityDeck new_game" "''Lima''"] by (simp add: d a names)
  then have ld: "CityDeck_Drawn lima_drawn = [\<lparr>City = Lima, IsEpidemic = False\<rparr>]"
    and la: "CityDeck_All lima_drawn = CityDeck_All (CityDeck new_game)"
    by (simp_all add: lima_drawn_def)
  have 2: "CityDeck_Draw lima_drawn ''Lima'' = (Failure (AlreadyDrawn ''Lima''), lima_drawn)"
    using CityDeck_Draw_cases [of lima_drawn "''Lima''"] by (simp add: ld names)
  have 3: "CityDeck_Draw lima_drawn ''Paris'' = (Failure (NoCityCalled ''Paris''), lima_drawn)"
    using CityDeck_Draw_cases [of lima_drawn "''Paris''"] by (simp add: ld la a names)
  from 1 2 3 show ?thesis by simp
qed

section \<open>Division by the number of epidemic cards\<close>

text \<open>
  C9. \<^verbatim>\<open>cardsPerEpidemic\<close>, and with it \<^verbatim>\<open>probabilityOfEpidemic\<close>, divide by the
  number of epidemic cards with no guard: they return a value exactly when the deck holds
  at least one epidemic card, and panic otherwise. \<^verbatim>\<open>NewGame\<close> puts
  \<^verbatim>\<open>EpidemicsPerGame\<close> = 5 epidemic cards into the deck, so both return a value on the
  deck of a new game.
\<close>

theorem cardsPerEpidemic_defined_iff:
  "(cardsPerEpidemic c = None \<longleftrightarrow> NumEpidemics c = 0)
   \<and> (probabilityOfEpidemic c = None \<longleftrightarrow> NumEpidemics c = 0)
   \<and> (NumEpidemics c = 0 \<longleftrightarrow> (\<forall>crd \<in> set (CityDeck_All c). \<not> IsEpidemic crd))
   \<and> EpidemicsPerGame = 5
   \<and> NumEpidemics (CityDeck (NewGame diseases cities gameName)) = int EpidemicsPerGame
   \<and> cardsPerEpidemic (CityDeck (NewGame diseases cities gameName)) \<noteq> None
   \<and> probabilityOfEpidemic (CityDeck (NewGame diseases cities gameName)) \<noteq> None"
  using cardsPerEpidemic_None_iff [of c] probabilityOfEpidemic_None_iff [of c]
    NumEpidemics_zero_iff [of c]
    NumEpidemics_NewGame [of diseases cities gameName]
    cardsPerEpidemic_None_iff [of "CityDeck (NewGame diseases cities gameName)"]
    probabilityOfEpidemic_None_iff [of "CityDeck (NewGame diseases cities gameName)"]
  by (simp add: EpidemicsPerGame_def)

theorem cardsPerEpidemic_defined_iff_witness:
  "NumEpidemics no_epidemics = 0 \<and> cardsPerEpidemic no_epidemics = None
   \<and> probabilityOfEpidemic no_epidemics = None
   \<and> NumEpidemics (CityDeck new_game) = 5
   \<and> cardsPerEpidemic (CityDeck new_game) = Some 1
   \<and> probabilityOfEpidemic (CityDeck new_game) = Some 2"
proof -
  have a: "NumEpidemics no_epidemics = 0"
    by (simp add: no_epidemics_def NumEpidemics_def CityCards_def)
  have b: "cardsPerEpidemic (CityDeck new_game) = Some 1"
    by (simp add: example_defs operation_defs)
  have c: "probabilityOfEpidemic (CityDeck new_game) = Some 2"
    by (simp add: example_defs operation_defs probability_defs)
  show ?thesis
    using cardsPerEpidemic_defined_iff [of no_epidemics "[]::unit list" "[Lima, Cairo]" "''g''"]
      a b c
    by (simp add: new_game_def)
qed

section \<open>What an infection leaves alone\<close>

text \<open>
  C10. \<^verbatim>\<open>Infect\<close>, whether it succeeds or returns an error, leaves the city deck as
  it was, its cards and its drawn cards; it also leaves the disease data, the infection
  rate, the outbreak counter, the name of the game and every city of another name. Only
  the infection deck and the city of this name can change.
\<close>

theorem Infect_leaves_CityDeck:
  assumes "Infect gs cn = (r, gs')"
  shows "r \<noteq> Panicked \<and> CityDeck gs' = CityDeck gs
     \<and> CityDeck_All (CityDeck gs') = CityDeck_All (CityDeck gs)
     \<and> CityDeck_Drawn (CityDeck gs') = CityDeck_Drawn (CityDeck gs)
     \<and> DiseaseData gs' = DiseaseData gs \<and> InfectionRate gs' = InfectionRate gs
     \<and> Outbreaks gs' = Outbreaks gs \<and> GameName gs' = GameName gs
     \<and> length (Cities gs') = length (Cities gs)
     \<and> (\<forall>i < length (Cities gs). Name (Cities gs ! i) \<noteq> cn \<longrightarrow> Cities gs' ! i = Cities gs ! i)"
  using assms
  by (auto simp: Infect_def InfectionDeck_Draw_def Let_def updateCity_nth_other
      split: prod.splits outcome.splits sum.splits if_splits)

theorem Infect_leaves_CityDeck_witness:
  "Infect new_game ''Lima'' = (Success, snd (Infect new_game ''Lima''))
   \<and> CityDeck (snd (Infect new_game ''Lima'')) = CityDeck new_game
   \<and> Cities (snd (Infect new_game ''Lima'')) ! 1 = Cairo
   \<and> Infect new_game ''Paris'' = (Failure (NotFound ''Paris''), snd (Infect new_game ''Paris''))
   \<and> CityDeck (snd (Infect new_game ''Paris'')) = CityDeck new_game"
proof -
  have a: "Infect new_game ''Lima'' = (Success, snd (Infect new_game ''Lima''))"
    by (simp add: example_defs operation_defs)
  have b: "Infect new_game ''Paris'' = (Failure (NotFound ''Paris''), snd (Infect new_game ''Paris''))"
    by (simp add: example_defs operation_defs)
  have c: "Cities new_game = [Lima, Cairo]" "Name Cairo \<noteq> ''Lima''"
    by (simp_all add: example_defs operation_defs)
  from Infect_leaves_CityDeck [OF a] Infect_leaves_CityDeck [OF b] a b c show ?thesis by simp
qed

end
